theory Spec2Isabelle
  imports Main "HOL-Library.Monad_Syntax"
begin

section \<open>The action DSL of design/dsl/action.go\<close>

text \<open>
  The DSL functions of \<^verbatim>\<open>action.go\<close> build a tree of definitions that point at each
  other (an action at its parent resource, a route at its action, a resource at its
  actions), and they do so by side effect on package-level state. The embedding makes
  that state a record: one store per struct type, the design's two registries, the
  evaluation stack and the error list. Every DSL function takes the state and returns
  the new one, wrapped in \<open>option\<close>: \<open>None\<close> stands for a run-time panic (a nil
  pointer dereference, a write to a nil map) or for a callback that does not return.
\<close>

subsection \<open>Pointers and stores\<close>

text \<open>
  A Go pointer is \<open>None\<close> (nil) or \<open>Some i\<close>, the index of the object in the store of
  its type. A store is a list: allocation appends, so a new object never overwrites an
  old one. Reading through nil, or through an index that the store does not hold, gives
  \<open>None\<close>.
\<close>

type_synonym ptr = "nat option"

definition deref :: "'a list \<Rightarrow> ptr \<Rightarrow> 'a option" where
  "deref h p = (case p of None \<Rightarrow> None | Some i \<Rightarrow> if i < length h then Some (h ! i) else None)"

definition store :: "ptr \<Rightarrow> ('a \<Rightarrow> 'a) \<Rightarrow> 'a list \<Rightarrow> 'a list option" where
  "store p f h = (case p of None \<Rightarrow> None | Some i \<Rightarrow> if i < length h then Some (h[i := f (h ! i)]) else None)"

subsection \<open>The definitions of package design that action.go reads and writes\<close>

text \<open>
  The struct declarations live in package \<^verbatim>\<open>design\<close>; the records below hold the fields
  that \<^verbatim>\<open>action.go\<close> selects (and the resource's base path, which the data model of the
  specification lists). Field names carry the struct's name as a prefix, since records
  share one name space.
\<close>

datatype DataType = Object "(string \<times> ptr) list" | OtherType string

record AttributeDefinition =
  attr_Type :: "DataType option"
  attr_Reference :: "DataType option"

record UserTypeDefinition =
  ut_AttributeDefinition :: ptr
  ut_TypeName :: string

record RouteDefinition =
  route_Verb :: string
  route_Path :: string
  route_Parent :: ptr

record ActionDefinition =
  action_Parent :: ptr
  action_Name :: string
  action_Routes :: "ptr list"
  action_Headers :: ptr
  action_Params :: ptr
  action_Payload :: ptr

record ResourceDefinition =
  resource_Name :: string
  resource_BasePath :: string
  resource_MediaType :: string
  resource_Actions :: "(string \<rightharpoonup> ptr) option"
  resource_Headers :: ptr
  resource_Params :: ptr

text \<open>
  A value of the interface \<^verbatim>\<open>DSLDefinition\<close>: a pointer to one of the definition structs,
  or anything else (\<open>NoDef\<close>: a nil interface or a definition this file does not dispatch on).
\<close>

datatype DSLDefinition =
  ResourceDef ptr | ActionDef ptr | ResponseDef ptr | AttributeDef ptr | NoDef

record ResponseDefinition =
  response_Parent :: DSLDefinition
  response_Headers :: ptr

text \<open>
  An entry of the error list keeps the format string and the operands that were handed to
  \<^verbatim>\<open>ReportError\<close>.
\<close>

type_synonym dsl_error = "string \<times> string list"

record design_state =
  resources :: "ResourceDefinition list"
  actions :: "ActionDefinition list"
  routes :: "RouteDefinition list"
  attributes :: "AttributeDefinition list"
  responses :: "ResponseDefinition list"
  userTypes :: "UserTypeDefinition list"
  Types :: "string \<rightharpoonup> ptr"
  MediaTypes :: "string \<rightharpoonup> DataType option"
  ctxStack :: "DSLDefinition list"
  dslErrors :: "dsl_error list"

text \<open>
  \<open>Types\<close> is \<^verbatim>\<open>Design.Types\<close>, the registry of user types by name, holding pointers;
  \<open>MediaTypes\<close> is \<^verbatim>\<open>Design.MediaTypes\<close>, each media type represented by what its
  \<^verbatim>\<open>Type\<close> selector yields.

  A configuration callback (a Go \<^verbatim>\<open>func()\<close>) is a function on the state; a nil
  \<^verbatim>\<open>func()\<close> value is \<open>None\<close> of type \<open>dsl option\<close>.
\<close>

type_synonym dsl = "design_state \<Rightarrow> design_state option"

subsection \<open>Collaborators declared outside action.go\<close>

text \<open>
  Modelled from the spec: \<^verbatim>\<open>ReportError\<close> is declared in another file of package dsl.
  Errors are appended to a process-wide error list, not thrown.
\<close>

definition ReportError :: "string \<Rightarrow> string list \<Rightarrow> design_state \<Rightarrow> design_state" where
  "ReportError fm vals s = s\<lparr>dslErrors := dslErrors s @ [(fm, vals)]\<rparr>"

text \<open>
  Modelled from the spec: the context resolver (\<^verbatim>\<open>actionDefinition\<close>,
  \<^verbatim>\<open>resourceDefinition\<close>, \<^verbatim>\<open>responseDefinition\<close>) is declared in another file of package
  dsl. It looks at the innermost active evaluation frame. If that is not of the wanted
  kind and the flag is true, it reports a configuration error and returns ok = false; if
  the flag is false it returns ok = false silently.
\<close>

definition current :: "design_state \<Rightarrow> DSLDefinition" where
  "current s = (if ctxStack s = [] then NoDef else last (ctxStack s))"

definition incompatibleDSL :: "string \<Rightarrow> design_state \<Rightarrow> design_state" where
  "incompatibleDSL kind s = ReportError ''must be used inside a block of kind %s'' [kind] s"

definition actionDefinition :: "bool \<Rightarrow> design_state \<Rightarrow> (ptr \<times> bool) \<times> design_state" where
  "actionDefinition failIfNotAction s =
     (case current s of
        ActionDef a \<Rightarrow> ((a, True), s)
      | _ \<Rightarrow> ((None, False), if failIfNotAction then incompatibleDSL ''Action'' s else s))"

definition resourceDefinition :: "bool \<Rightarrow> design_state \<Rightarrow> (ptr \<times> bool) \<times> design_state" where
  "resourceDefinition failIfNotResource s =
     (case current s of
        ResourceDef r \<Rightarrow> ((r, True), s)
      | _ \<Rightarrow> ((None, False), if failIfNotResource then incompatibleDSL ''Resource'' s else s))"

definition responseDefinition :: "bool \<Rightarrow> design_state \<Rightarrow> (ptr \<times> bool) \<times> design_state" where
  "responseDefinition failIfNotResponse s =
     (case current s of
        ResponseDef r \<Rightarrow> ((r, True), s)
      | _ \<Rightarrow> ((None, False), if failIfNotResponse then incompatibleDSL ''Response'' s else s))"

text \<open>
  Modelled from the spec: \<^verbatim>\<open>executeDSL\<close> is declared in another file of package dsl. It
  pushes the target definition as the active context, invokes the callback, pops the
  context on return, and returns whether execution succeeded, that is, whether the
  callback left the error list no longer than it found it. The callback is not nil here
  (the specification does not say what a nil callback does).
\<close>

definition executeDSL :: "dsl \<Rightarrow> DSLDefinition \<Rightarrow> design_state \<Rightarrow> (bool \<times> design_state) option" where
  "executeDSL d ctx s =
     do {
       let initCount = length (dslErrors s);
       s' \<leftarrow> d (s\<lparr>ctxStack := ctxStack s @ [ctx]\<rparr>);
       Some (length (dslErrors s') \<le> initCount, s'\<lparr>ctxStack := butlast (ctxStack s')\<rparr>)
     }"

subsection \<open>newAttribute and the route constructors\<close>

definition newAttribute :: "string \<Rightarrow> design_state \<Rightarrow> ptr \<times> design_state" where
  "newAttribute baseMT s =
     (let base = (case MediaTypes s baseMT of Some t \<Rightarrow> t | None \<Rightarrow> None)
      in (Some (length (attributes s)),
          s\<lparr>attributes := attributes s @ [\<lparr>attr_Type = None, attr_Reference = base\<rparr>]\<rparr>))"

definition GET :: "string \<Rightarrow> design_state \<Rightarrow> ptr \<times> design_state" where
  "GET path s =
     (Some (length (routes s)),
      s\<lparr>routes := routes s @ [\<lparr>route_Verb = ''GET'', route_Path = path, route_Parent = None\<rparr>]\<rparr>)"

definition PUT :: "string \<Rightarrow> design_state \<Rightarrow> ptr \<times> design_state" where
  "PUT path s =
     (Some (length (routes s)),
      s\<lparr>routes := routes s @ [\<lparr>route_Verb = ''PUT'', route_Path = path, route_Parent = None\<rparr>]\<rparr>)"

subsection \<open>Action\<close>

text \<open>
  The action is looked up by name in the resource's map and allocated only when the map
  has no entry. The callback runs on it; the map is written only if the callback
  succeeded. The write goes to the map the resource holds after the callback, and panics
  if that map is nil.
\<close>

definition Action :: "string \<Rightarrow> dsl \<Rightarrow> design_state \<Rightarrow> design_state option" where
  "Action name d s =
     (case resourceDefinition True s of
        ((r, ok), s1) \<Rightarrow>
          if \<not> ok then Some s1
          else do {
            rd \<leftarrow> deref (resources s1) r;
            rs2 \<leftarrow> (case resource_Actions rd of
                      None \<Rightarrow> store r (\<lambda>x. x\<lparr>resource_Actions := Some Map.empty\<rparr>) (resources s1)
                    | Some _ \<Rightarrow> Some (resources s1));
            let s2 = s1\<lparr>resources := rs2\<rparr>;
            let m = (case resource_Actions rd of None \<Rightarrow> Map.empty | Some m \<Rightarrow> m);
            let (action, s3) =
              (case m name of
                 Some a \<Rightarrow> (a, s2)
               | None \<Rightarrow>
                   (Some (length (actions s2)),
                    s2\<lparr>actions := actions s2 @
                       [\<lparr>action_Parent = r, action_Name = name, action_Routes = [],
                         action_Headers = None, action_Params = None, action_Payload = None\<rparr>]\<rparr>));
            (ok', s4) \<leftarrow> executeDSL d (ActionDef action) s3;
            if \<not> ok' then Some s4
            else do {
              rd' \<leftarrow> deref (resources s4) r;
              m' \<leftarrow> resource_Actions rd';
              rs5 \<leftarrow> store r (\<lambda>x. x\<lparr>resource_Actions := Some (m'(name \<mapsto> action))\<rparr>) (resources s4);
              Some (s4\<lparr>resources := rs5\<rparr>)
            }
          })"

text \<open>
  Lines 43 to 52 of \<^verbatim>\<open>Action\<close> on their own, for a resource at index \<open>ri\<close>: the map
  is made if it is nil, the action is looked up by name and allocated only if the map has
  no entry. The result is the action that the declaration works on and the state in which
  its callback is then executed.
\<close>

definition Action_target :: "string \<Rightarrow> nat \<Rightarrow> design_state \<Rightarrow> ptr \<times> design_state" where
  "Action_target name ri s =
     (let rd = resources s ! ri;
          s2 = (case resource_Actions rd of
                  None \<Rightarrow> s\<lparr>resources := (resources s)[ri := rd\<lparr>resource_Actions := Some Map.empty\<rparr>]\<rparr>
                | Some _ \<Rightarrow> s);
          m = (case resource_Actions rd of None \<Rightarrow> Map.empty | Some m \<Rightarrow> m)
      in case m name of
           Some a \<Rightarrow> (a, s2)
         | None \<Rightarrow>
             (Some (length (actions s2)),
              s2\<lparr>actions := actions s2 @
                 [\<lparr>action_Parent = Some ri, action_Name = name, action_Routes = [],
                   action_Headers = None, action_Params = None, action_Payload = None\<rparr>]\<rparr>))"

subsection \<open>Routing\<close>

text \<open>
  The two inner loops of \<^verbatim>\<open>Routing\<close>, over the wildcards of the route path and over the
  wildcards of the resource path. \<open>P\<close> is \<^verbatim>\<open>a.Parent.FullPath()\<close> and \<open>Q\<close> is
  \<^verbatim>\<open>r.Path\<close>; the loops change the error list only, so both are the values read at the top
  of the iteration.
\<close>

definition duplicate_wildcard :: string where
  "duplicate_wildcard =
     ''duplicate wildcard '' @ [CHR 0x22] @ ''%s'' @ [CHR 0x22] @
     '' in resource base path '' @ [CHR 0x22] @ ''%s'' @ [CHR 0x22] @
     '' and action route '' @ [CHR 0x22] @ ''%s'' @ [CHR 0x22]"

fun wcs_loop :: "string \<Rightarrow> string \<Rightarrow> string \<Rightarrow> string list \<Rightarrow> design_state \<Rightarrow> design_state" where
  "wcs_loop P Q rwc [] s = s"
| "wcs_loop P Q rwc (wc # wcs) s =
     wcs_loop P Q rwc wcs (if rwc = wc then ReportError duplicate_wildcard [wc, P, Q] s else s)"

fun rwcs_loop :: "string \<Rightarrow> string \<Rightarrow> string list \<Rightarrow> string list \<Rightarrow> design_state \<Rightarrow> design_state" where
  "rwcs_loop P Q [] wcs s = s"
| "rwcs_loop P Q (rwc # rwcs) wcs s = rwcs_loop P Q rwcs wcs (wcs_loop P Q rwc wcs s)"

text \<open>
  The loop over the routes. \<open>FullPath\<close> (a method of \<^verbatim>\<open>ResourceDefinition\<close>) and
  \<open>ExtractWildcards\<close> are declared in package design: they are parameters, the first a
  function of the resource, the second a pure function from a path to its wildcard names.
\<close>

fun routes_loop ::
  "(ResourceDefinition \<Rightarrow> string) \<Rightarrow> (string \<Rightarrow> string list) \<Rightarrow> ptr \<Rightarrow> ptr list \<Rightarrow>
   design_state \<Rightarrow> design_state option" where
  "routes_loop FullPath ExtractWildcards a [] s = Some s"
| "routes_loop FullPath ExtractWildcards a (r # rs) s =
     do {
       ad \<leftarrow> deref (actions s) a;
       pd \<leftarrow> deref (resources s) (action_Parent ad);
       let rwcs = ExtractWildcards (FullPath pd);
       rd \<leftarrow> deref (routes s) r;
       let wcs = ExtractWildcards (route_Path rd);
       let s1 = rwcs_loop (FullPath pd) (route_Path rd) rwcs wcs s;
       routes2 \<leftarrow> store r (\<lambda>x. x\<lparr>route_Parent := a\<rparr>) (routes s1);
       let s2 = s1\<lparr>routes := routes2\<rparr>;
       actions3 \<leftarrow> store a (\<lambda>x. x\<lparr>action_Routes := action_Routes x @ [r]\<rparr>) (actions s2);
       routes_loop FullPath ExtractWildcards a rs (s2\<lparr>actions := actions3\<rparr>)
     }"

definition Routing ::
  "(ResourceDefinition \<Rightarrow> string) \<Rightarrow> (string \<Rightarrow> string list) \<Rightarrow> ptr list \<Rightarrow>
   design_state \<Rightarrow> design_state option" where
  "Routing FullPath ExtractWildcards rts s =
     (case actionDefinition True s of
        ((a, ok), s1) \<Rightarrow>
          if ok then routes_loop FullPath ExtractWildcards a rts s1 else Some s1)"

subsection \<open>Headers and Params\<close>

definition Headers :: "dsl \<Rightarrow> design_state \<Rightarrow> design_state option" where
  "Headers d s =
     (case actionDefinition False s of
        ((a, ok), s1) \<Rightarrow>
          if ok then do {
            ad \<leftarrow> deref (actions s1) a;
            pd \<leftarrow> deref (resources s1) (action_Parent ad);
            let (headers, s2) = newAttribute (resource_MediaType pd) s1;
            (ok', s3) \<leftarrow> executeDSL d (AttributeDef headers) s2;
            if ok' then do {
              actions4 \<leftarrow> store a (\<lambda>x. x\<lparr>action_Headers := headers\<rparr>) (actions s3);
              Some (s3\<lparr>actions := actions4\<rparr>)
            } else Some s3
          }
          else
            (case resourceDefinition False s1 of
               ((r, ok), s2) \<Rightarrow>
                 if ok then do {
                   rd \<leftarrow> deref (resources s2) r;
                   let (headers, s3) = newAttribute (resource_MediaType rd) s2;
                   (ok', s4) \<leftarrow> executeDSL d (AttributeDef headers) s3;
                   if ok' then do {
                     resources5 \<leftarrow> store r (\<lambda>x. x\<lparr>resource_Headers := headers\<rparr>) (resources s4);
                     Some (s4\<lparr>resources := resources5\<rparr>)
                   } else Some s4
                 }
                 else
                   (case responseDefinition True s2 of
                      ((r, ok), s3) \<Rightarrow>
                        if ok then do {
                          rd \<leftarrow> deref (responses s3) r;
                          if response_Headers rd \<noteq> None
                          then Some (ReportError ''headers already defined'' [] s3)
                          else do {
                            mtid \<leftarrow> (case response_Parent rd of
                                       ResourceDef pa \<Rightarrow>
                                         do { pd \<leftarrow> deref (resources s3) pa;
                                              Some (resource_MediaType pd) }
                                     | ActionDef pa \<Rightarrow>
                                         do { ad \<leftarrow> deref (actions s3) pa;
                                              pd \<leftarrow> deref (resources s3) (action_Parent ad);
                                              Some (resource_MediaType pd) }
                                     | _ \<Rightarrow> Some []);
                            let (h, s4) = newAttribute mtid s3;
                            (ok', s5) \<leftarrow> executeDSL d (AttributeDef h) s4;
                            if ok' then do {
                              responses6 \<leftarrow> store r (\<lambda>x. x\<lparr>response_Headers := h\<rparr>) (responses s5);
                              Some (s5\<lparr>responses := responses6\<rparr>)
                            } else Some s5
                          }
                        }
                        else Some s3)))"

definition Params :: "dsl \<Rightarrow> design_state \<Rightarrow> design_state option" where
  "Params d s =
     (case actionDefinition False s of
        ((a, ok), s1) \<Rightarrow>
          if ok then do {
            ad \<leftarrow> deref (actions s1) a;
            pd \<leftarrow> deref (resources s1) (action_Parent ad);
            let (params, s2) = newAttribute (resource_MediaType pd) s1;
            (ok', s3) \<leftarrow> executeDSL d (AttributeDef params) s2;
            if ok' then do {
              actions4 \<leftarrow> store a (\<lambda>x. x\<lparr>action_Params := params\<rparr>) (actions s3);
              Some (s3\<lparr>actions := actions4\<rparr>)
            } else Some s3
          }
          else
            (case resourceDefinition True s1 of
               ((r, ok), s2) \<Rightarrow>
                 if ok then do {
                   rd \<leftarrow> deref (resources s2) r;
                   let (params, s3) = newAttribute (resource_MediaType rd) s2;
                   (ok', s4) \<leftarrow> executeDSL d (AttributeDef params) s3;
                   if ok' then do {
                     resources5 \<leftarrow> store r (\<lambda>x. x\<lparr>resource_Params := params\<rparr>) (resources s4);
                     Some (s4\<lparr>resources := resources5\<rparr>)
                   } else Some s4
                 }
                 else Some s2))"

subsection \<open>Payload\<close>

text \<open>
  The first argument of \<^verbatim>\<open>Payload\<close> is an \<^verbatim>\<open>interface{}\<close>; the type switch tells a
  \<^verbatim>\<open>func()\<close> (possibly nil), a \<^verbatim>\<open>*AttributeDefinition\<close>, a \<^verbatim>\<open>DataStructure\<close> (given
  here by the pointer its \<^verbatim>\<open>Definition()\<close> returns) and a string; \<open>POther\<close> is a value of
  any other type, an integer say, for which no case of the switch is taken.
\<close>

datatype payload_source =
  PFunc "dsl option" | PAttribute ptr | PDataStructure ptr | PString string | POther

text \<open>
  \<open>Camelize\<close> is \<^verbatim>\<open>inflect.Camelize\<close>, of an external package: a parameter. The variadic
  \<^verbatim>\<open>dsls\<close> is a list of possibly nil callbacks.
\<close>

definition Payload ::
  "(string \<Rightarrow> string) \<Rightarrow> payload_source \<Rightarrow> dsl option list \<Rightarrow> design_state \<Rightarrow>
   design_state option" where
  "Payload Camelize p dsls s =
     (if length dsls > 1 then Some (ReportError ''too many arguments given to Payload'' [] s)
      else
        (case actionDefinition True s of
           ((a, ok), s1) \<Rightarrow>
             if \<not> ok then Some s1
             else do {
               (att, d, s2) \<leftarrow>
                 (case p of
                    PFunc actual \<Rightarrow> do {
                      ad \<leftarrow> deref (actions s1) a;
                      pd \<leftarrow> deref (resources s1) (action_Parent ad);
                      let (att, s') = newAttribute (resource_MediaType pd) s1;
                      attributes' \<leftarrow> store att (\<lambda>x. x\<lparr>attr_Type := Some (Object [])\<rparr>) (attributes s');
                      Some (att, actual, s'\<lparr>attributes := attributes'\<rparr>)
                    }
                  | PAttribute actual \<Rightarrow> Some (actual, None, s1)
                  | PDataStructure definition \<Rightarrow> Some (definition, None, s1)
                  | PString actual \<Rightarrow> do {
                      let (ut, ok) = (case Types s1 actual of Some u \<Rightarrow> (u, True) | None \<Rightarrow> (None, False));
                      let s' = (if \<not> ok then ReportError ''unknown payload type %s'' [actual] s1 else s1);
                      utd \<leftarrow> deref (userTypes s') ut;
                      Some (ut_AttributeDefinition utd, None, s')
                    }
                  | POther \<Rightarrow> Some (None, None, s1));
               let (d, s3) =
                 (if length dsls = 1
                  then (hd dsls,
                        case d of
                          Some _ \<Rightarrow>
                            ReportError
                              ''invalid arguments in Payload call, must be (type), (dsl) or (type, dsl)''
                              [] s2
                        | None \<Rightarrow> s2)
                  else (d, s2));
               s4 \<leftarrow> (case d of
                        Some f \<Rightarrow> map_option snd (executeDSL f (AttributeDef att) s3)
                      | None \<Rightarrow> Some s3);
               ad \<leftarrow> deref (actions s4) a;
               pd \<leftarrow> deref (resources s4) (action_Parent ad);
               let rn = Camelize (resource_Name pd);
               let an = Camelize (action_Name ad);
               let payload = Some (length (userTypes s4));
               let s5 = s4\<lparr>userTypes := userTypes s4 @
                            [\<lparr>ut_AttributeDefinition = att, ut_TypeName = an @ rn @ ''Payload''\<rparr>]\<rparr>;
               actions6 \<leftarrow> store a (\<lambda>x. x\<lparr>action_Payload := payload\<rparr>) (actions s5);
               Some (s5\<lparr>actions := actions6\<rparr>)
             }))"

subsection \<open>Example states\<close>

text \<open>
  The states of the example in the comment of \<^verbatim>\<open>Action\<close>. \<open>account\<close> is the state in
  the block of resource Account, before any action is declared. \<open>update_account\<close> is the
  state inside \<^verbatim>\<open>Action("Update", ...)\<close> of that resource: the user type UpdatePayload is
  registered, and two routes have been built with \<^verbatim>\<open>PUT\<close>, the second reusing the
  wildcard of the resource's base path.
\<close>

definition account :: design_state where
  "account =
     \<lparr>resources = [\<lparr>resource_Name = ''Account'', resource_BasePath = ''/accounts/:accountID'',
                     resource_MediaType = [], resource_Actions = None,
                     resource_Headers = None, resource_Params = None\<rparr>],
      actions = [], routes = [], attributes = [], responses = [], userTypes = [],
      Types = Map.empty, MediaTypes = Map.empty,
      ctxStack = [ResourceDef (Some 0)], dslErrors = []\<rparr>"

definition update_account :: design_state where
  "update_account =
     \<lparr>resources = [\<lparr>resource_Name = ''Account'', resource_BasePath = ''/accounts/:accountID'',
                     resource_MediaType = [], resource_Actions = Some Map.empty,
                     resource_Headers = None, resource_Params = None\<rparr>],
      actions = [\<lparr>action_Parent = Some 0, action_Name = ''Update'', action_Routes = [],
                   action_Headers = None, action_Params = None, action_Payload = None\<rparr>],
      routes = [\<lparr>route_Verb = ''PUT'', route_Path = ''/:id'', route_Parent = None\<rparr>,
                \<lparr>route_Verb = ''PUT'', route_Path = ''/:accountID/owner'', route_Parent = None\<rparr>],
      attributes = [\<lparr>attr_Type = Some (Object []), attr_Reference = None\<rparr>],
      responses = [],
      userTypes = [\<lparr>ut_AttributeDefinition = Some 0, ut_TypeName = ''UpdatePayload''\<rparr>],
      Types = [''UpdatePayload'' \<mapsto> Some 0], MediaTypes = Map.empty,
      ctxStack = [ResourceDef (Some 0), ActionDef (Some 0)], dslErrors = []\<rparr>"

text \<open>
  The state in the block of resource Account after an action Show has been declared: the
  resource's map exists and has no entry for Update.
\<close>

definition account_show :: design_state where
  "account_show =
     account
       \<lparr>resources := [\<lparr>resource_Name = ''Account'', resource_BasePath = ''/accounts/:accountID'',
                       resource_MediaType = [], resource_Actions = Some [''Show'' \<mapsto> Some 0],
                       resource_Headers = None, resource_Params = None\<rparr>],
        actions := [\<lparr>action_Parent = Some 0, action_Name = ''Show'', action_Routes = [],
                     action_Headers = None, action_Params = None, action_Payload = None\<rparr>]\<rparr>"

text \<open>The state inside a Response block of that action, whose headers are already set.\<close>

definition no_content_response :: design_state where
  "no_content_response =
     update_account
       \<lparr>responses := [\<lparr>response_Parent = ActionDef (Some 0), response_Headers = Some 0\<rparr>],
        ctxStack := [ResourceDef (Some 0), ActionDef (Some 0), ResponseDef (Some 0)]\<rparr>"

text \<open>The wildcard names of the three paths of the example.\<close>

definition example_wildcards :: "string \<Rightarrow> string list" where
  "example_wildcards path =
     (if path = ''/accounts/:accountID'' then [''accountID'']
      else if path = ''/:accountID/owner'' then [''accountID'']
      else if path = ''/:id'' then [''id'']
      else [])"

text \<open>A callback whose execution fails: it reports an error.\<close>

definition failing_dsl :: dsl where
  "failing_dsl s = Some (ReportError ''invalid member'' [] s)"

text \<open>
  The errors that the two inner loops of \<^verbatim>\<open>Routing\<close> report for a resource path \<open>P\<close>
  and a route path \<open>Q\<close>.
\<close>

definition route_errors :: "string \<Rightarrow> (string \<Rightarrow> string list) \<Rightarrow> string \<Rightarrow> dsl_error list" where
  "route_errors P EW Q =
     concat (map (\<lambda>rwc. map (\<lambda>wc. (duplicate_wildcard, [wc, P, Q])) (filter (\<lambda>wc. rwc = wc) (EW Q))) (EW P))"

section \<open>Properties\<close>

subsection \<open>The loops of Routing\<close>

lemma wcs_loop_frame:
  "wcs_loop P Q rwc wcs s =
     s\<lparr>dslErrors := dslErrors s @
         map (\<lambda>wc. (duplicate_wildcard, [wc, P, Q])) (filter (\<lambda>wc. rwc = wc) wcs)\<rparr>"
  by (induction wcs arbitrary: s) (simp_all add: ReportError_def)

lemma rwcs_loop_frame:
  "rwcs_loop P Q rwcs wcs s =
     s\<lparr>dslErrors := dslErrors s @
         concat (map (\<lambda>rwc. map (\<lambda>wc. (duplicate_wildcard, [wc, P, Q]))
                                (filter (\<lambda>wc. rwc = wc) wcs)) rwcs)\<rparr>"
  by (induction rwcs arbitrary: s) (simp_all add: wcs_loop_frame)

lemma rwcs_loop_errors:
  "rwcs_loop P Q (EW P) (EW Q) s = s\<lparr>dslErrors := dslErrors s @ route_errors P EW Q\<rparr>"
  by (simp add: rwcs_loop_frame route_errors_def)

lemma routes_loop_result:
  assumes "ai < length (actions s)"
    and "deref (resources s) (action_Parent (actions s ! ai)) = Some pd"
    and "\<forall>r\<in>set rs. \<exists>i. r = Some i \<and> i < length (routes s)"
  shows "\<exists>s'. routes_loop FP EW (Some ai) rs s = Some s'
     \<and> dslErrors s' = dslErrors s @
          concat (map (\<lambda>r. route_errors (FP pd) EW (route_Path (routes s ! the r))) rs)
     \<and> actions s' = (actions s)[ai := (actions s ! ai)\<lparr>action_Routes := action_Routes (actions s ! ai) @ rs\<rparr>]
     \<and> resources s' = resources s
     \<and> length (routes s') = length (routes s)
     \<and> (\<forall>i<length (routes s). route_Path (routes s' ! i) = route_Path (routes s ! i)
            \<and> route_Verb (routes s' ! i) = route_Verb (routes s ! i)
            \<and> route_Parent (routes s' ! i) = (if Some i \<in> set rs then Some ai else route_Parent (routes s ! i)))
     \<and> ctxStack s' = ctxStack s \<and> attributes s' = attributes s \<and> responses s' = responses s
     \<and> userTypes s' = userTypes s \<and> Types s' = Types s \<and> MediaTypes s' = MediaTypes s"
  using assms
proof (induction rs arbitrary: s)
  case Nil
  then show ?case by (simp add: list_update_same_conv)
next
  case (Cons r rs)
  from Cons.prems(3) obtain i where r: "r = Some i" and i: "i < length (routes s)" by auto
  let ?Q = "route_Path (routes s ! i)"
  define s3 where "s3 = s\<lparr>dslErrors := dslErrors s @ route_errors (FP pd) EW ?Q,
        routes := (routes s)[i := (routes s ! i)\<lparr>route_Parent := Some ai\<rparr>],
        actions := (actions s)[ai := (actions s ! ai)\<lparr>action_Routes := action_Routes (actions s ! ai) @ [r]\<rparr>]\<rparr>"
  have step: "routes_loop FP EW (Some ai) (r # rs) s = routes_loop FP EW (Some ai) rs s3"
    using Cons.prems(1,2) r i by (simp add: deref_def store_def rwcs_loop_errors s3_def)
  have p1: "ai < length (actions s3)" using Cons.prems(1) by (simp add: s3_def)
  have p2: "deref (resources s3) (action_Parent (actions s3 ! ai)) = Some pd"
    using Cons.prems(1,2) by (simp add: s3_def)
  have p3: "\<forall>r\<in>set rs. \<exists>i. r = Some i \<and> i < length (routes s3)"
    using Cons.prems(3) by (simp add: s3_def)
  from Cons.IH[OF p1 p2 p3] obtain s' where
    IH1: "routes_loop FP EW (Some ai) rs s3 = Some s'"
    and IH2: "dslErrors s' = dslErrors s3 @
          concat (map (\<lambda>r. route_errors (FP pd) EW (route_Path (routes s3 ! the r))) rs)"
    and IH3: "actions s' = (actions s3)[ai := (actions s3 ! ai)\<lparr>action_Routes := action_Routes (actions s3 ! ai) @ rs\<rparr>]"
    and IH4: "resources s' = resources s3"
    and IH5: "length (routes s') = length (routes s3)"
    and IH6: "\<forall>i<length (routes s3). route_Path (routes s' ! i) = route_Path (routes s3 ! i)
            \<and> route_Verb (routes s' ! i) = route_Verb (routes s3 ! i)
            \<and> route_Parent (routes s' ! i) = (if Some i \<in> set rs then Some ai else route_Parent (routes s3 ! i))"
    and IH7: "ctxStack s' = ctxStack s3 \<and> attributes s' = attributes s3 \<and> responses s' = responses s3
     \<and> userTypes s' = userTypes s3 \<and> Types s' = Types s3 \<and> MediaTypes s' = MediaTypes s3"
    by blast
  have paths: "\<And>x. x \<in> set rs \<Longrightarrow> route_Path (routes s3 ! the x) = route_Path (routes s ! the x)"
    using Cons.prems(3) i by (auto simp: nth_list_update s3_def)
  have m: "map (\<lambda>r. route_errors (FP pd) EW (route_Path (routes s3 ! the r))) rs
         = map (\<lambda>r. route_errors (FP pd) EW (route_Path (routes s ! the r))) rs"
    by (rule map_cong[OF refl]) (simp add: paths)
  have e: "dslErrors s' = dslErrors s @
          concat (map (\<lambda>r. route_errors (FP pd) EW (route_Path (routes s ! the r))) (r # rs))"
    unfolding IH2 m using r by (simp add: s3_def)
  have a: "actions s' = (actions s)[ai := (actions s ! ai)\<lparr>action_Routes := action_Routes (actions s ! ai) @ r # rs\<rparr>]"
    using IH3 Cons.prems(1) by (simp add: s3_def)
  have rt: "\<forall>j<length (routes s). route_Path (routes s' ! j) = route_Path (routes s ! j)
            \<and> route_Verb (routes s' ! j) = route_Verb (routes s ! j)
            \<and> route_Parent (routes s' ! j) = (if Some j \<in> set (r # rs) then Some ai else route_Parent (routes s ! j))"
    using IH6 r i by (auto simp: nth_list_update s3_def)
  have rest: "resources s' = resources s" "length (routes s') = length (routes s)"
    "ctxStack s' = ctxStack s \<and> attributes s' = attributes s \<and> responses s' = responses s
     \<and> userTypes s' = userTypes s \<and> Types s' = Types s \<and> MediaTypes s' = MediaTypes s"
    using IH4 IH5 IH7 by (simp_all add: s3_def)
  show ?case
    unfolding step using IH1 e a rt rest by blast
qed


subsection \<open>Routing: order and parents\<close>

text \<open>
  C7. In an action context, for every sequence of routes passed to \<^verbatim>\<open>Routing\<close>, all of
  them, conflicting or not, have their parent pointer set to the action and are appended
  to the action's route sequence in call order. Nothing is assumed about wildcards, so
  this holds whatever duplicate-wildcard errors are reported.
\<close>
theorem Routing_attaches_all_in_order:
  assumes "current s = ActionDef (Some ai)"
    and "ai < length (actions s)"
    and "deref (resources s) (action_Parent (actions s ! ai)) = Some pd"
    and "\<forall>r\<in>set rs. \<exists>i. r = Some i \<and> i < length (routes s)"
  shows "\<exists>s'. Routing FP EW rs s = Some s'
           \<and> map_option action_Routes (deref (actions s') (Some ai)) = Some (action_Routes (actions s ! ai) @ rs)
           \<and> (\<forall>r\<in>set rs. map_option route_Parent (deref (routes s') r) = Some (Some ai))"
proof -
  from routes_loop_result[OF assms(2,3,4), of FP EW] obtain s' where
    run: "routes_loop FP EW (Some ai) rs s = Some s'"
    and acts: "actions s' = (actions s)[ai := (actions s ! ai)\<lparr>action_Routes := action_Routes (actions s ! ai) @ rs\<rparr>]"
    and len: "length (routes s') = length (routes s)"
    and rts: "\<forall>i<length (routes s). route_Path (routes s' ! i) = route_Path (routes s ! i)
            \<and> route_Verb (routes s' ! i) = route_Verb (routes s ! i)
            \<and> route_Parent (routes s' ! i) = (if Some i \<in> set rs then Some ai else route_Parent (routes s ! i))"
    by blast
  have "Routing FP EW rs s = Some s'"
    using assms(1) run by (simp add: Routing_def actionDefinition_def)
  moreover have "map_option action_Routes (deref (actions s') (Some ai)) = Some (action_Routes (actions s ! ai) @ rs)"
    using acts assms(2) by (simp add: deref_def)
  moreover have "\<forall>r\<in>set rs. map_option route_Parent (deref (routes s') r) = Some (Some ai)"
    using assms(4) rts len by (auto simp: deref_def)
  ultimately show ?thesis by blast
qed

theorem Routing_attaches_all_in_order_witness:
  "\<exists>s'. Routing resource_BasePath example_wildcards [Some 0, Some 1] update_account = Some s'
      \<and> map_option action_Routes (deref (actions s') (Some 0)) = Some [Some 0, Some 1]
      \<and> map_option route_Parent (deref (routes s') (Some 0)) = Some (Some 0)
      \<and> map_option route_Parent (deref (routes s') (Some 1)) = Some (Some 0)"
  using Routing_attaches_all_in_order [of update_account 0 _ "[Some 0, Some 1]" resource_BasePath example_wildcards]
  by (simp add: update_account_def current_def deref_def)

subsection \<open>Routing: duplicate wildcards\<close>

text \<open>
  C6. For an action whose parent resource has full path \<open>P\<close> and the routes passed to
  \<^verbatim>\<open>Routing\<close>, the errors that the call appends are known exactly: they are, route after
  route in call order, the errors of \<open>route_errors\<close> for that route's path. Hence, for
  each route with path \<open>Q\<close> and each wildcard \<open>W\<close> that is both a wildcard of \<open>P\<close>
  and of \<open>Q\<close>, a duplicate-wildcard error with the operands \<open>W\<close>, \<open>P\<close>, \<open>Q\<close> is
  appended; every appended error is such an error, of a route of the call and a wildcard
  that this route shares with \<open>P\<close>; a route that shares no wildcard with \<open>P\<close>
  contributes no error; and if no route shares a wildcard with \<open>P\<close>, the call reports no
  error at all.
\<close>
theorem Routing_duplicate_wildcards:
  assumes "current s = ActionDef (Some ai)"
    and "ai < length (actions s)"
    and "deref (resources s) (action_Parent (actions s ! ai)) = Some pd"
    and "FP pd = P"
    and "\<forall>r\<in>set rs. \<exists>i. r = Some i \<and> i < length (routes s)"
  shows "\<exists>s'. Routing FP EW rs s = Some s'
           \<and> dslErrors s' = dslErrors s @
                concat (map (\<lambda>r. route_errors P EW (route_Path (routes s ! the r))) rs)
           \<and> (\<forall>r\<in>set rs. \<forall>W\<in>set (EW P) \<inter> set (EW (route_Path (routes s ! the r))).
                 (duplicate_wildcard, [W, P, route_Path (routes s ! the r)])
                   \<in> set (drop (length (dslErrors s)) (dslErrors s')))
           \<and> (\<forall>e\<in>set (drop (length (dslErrors s)) (dslErrors s')).
                 \<exists>r\<in>set rs. \<exists>W\<in>set (EW P) \<inter> set (EW (route_Path (routes s ! the r))).
                   e = (duplicate_wildcard, [W, P, route_Path (routes s ! the r)]))
           \<and> (\<forall>r\<in>set rs. set (EW P) \<inter> set (EW (route_Path (routes s ! the r))) = {}
                 \<longrightarrow> route_errors P EW (route_Path (routes s ! the r)) = [])
           \<and> ((\<forall>r\<in>set rs. set (EW P) \<inter> set (EW (route_Path (routes s ! the r))) = {})
                 \<longrightarrow> dslErrors s' = dslErrors s)"
proof -
  from routes_loop_result[OF assms(2,3,5), of FP EW] assms(4) obtain s' where
    run: "routes_loop FP EW (Some ai) rs s = Some s'"
    and errs: "dslErrors s' = dslErrors s @
          concat (map (\<lambda>r. route_errors P EW (route_Path (routes s ! the r))) rs)"
    by blast
  have r: "Routing FP EW rs s = Some s'"
    using assms(1) run by (simp add: Routing_def actionDefinition_def)
  have img: "\<And>Q. set (route_errors P EW Q) =
      (\<lambda>W. (duplicate_wildcard, [W, P, Q])) ` (set (EW P) \<inter> set (EW Q))"
    by (auto simp: route_errors_def)
  have none: "\<And>Q. set (EW P) \<inter> set (EW Q) = {} \<Longrightarrow> route_errors P EW Q = []"
    using img by (metis image_empty set_empty)
  have a: "\<forall>r\<in>set rs. \<forall>W\<in>set (EW P) \<inter> set (EW (route_Path (routes s ! the r))).
                 (duplicate_wildcard, [W, P, route_Path (routes s ! the r)])
                   \<in> set (drop (length (dslErrors s)) (dslErrors s'))"
    by (auto simp: errs img)
  have b: "\<forall>e\<in>set (drop (length (dslErrors s)) (dslErrors s')).
                 \<exists>r\<in>set rs. \<exists>W\<in>set (EW P) \<inter> set (EW (route_Path (routes s ! the r))).
                   e = (duplicate_wildcard, [W, P, route_Path (routes s ! the r)])"
    by (auto simp: errs img)
  have c: "\<forall>r\<in>set rs. set (EW P) \<inter> set (EW (route_Path (routes s ! the r))) = {}
                 \<longrightarrow> route_errors P EW (route_Path (routes s ! the r)) = []"
    using none by blast
  have d: "(\<forall>r\<in>set rs. set (EW P) \<inter> set (EW (route_Path (routes s ! the r))) = {})
                 \<longrightarrow> dslErrors s' = dslErrors s"
    using none by (simp add: errs)
  from r errs a b c d show ?thesis by blast
qed

theorem Routing_duplicate_wildcards_witness:
  "(\<exists>s'. Routing resource_BasePath example_wildcards [Some 1, Some 0] update_account = Some s'
      \<and> dslErrors s' =
          [(duplicate_wildcard, [''accountID'', ''/accounts/:accountID'', ''/:accountID/owner''])])
   \<and> (\<exists>s'. Routing resource_BasePath example_wildcards [Some 0] update_account = Some s'
      \<and> dslErrors s' = [])"
proof
  show "\<exists>s'. Routing resource_BasePath example_wildcards [Some 1, Some 0] update_account = Some s'
      \<and> dslErrors s' =
          [(duplicate_wildcard, [''accountID'', ''/accounts/:accountID'', ''/:accountID/owner''])]"
    using Routing_duplicate_wildcards [of update_account 0 _ resource_BasePath
        "''/accounts/:accountID''" "[Some 1, Some 0]" example_wildcards]
    by (auto simp: update_account_def current_def deref_def example_wildcards_def route_errors_def)
  show "\<exists>s'. Routing resource_BasePath example_wildcards [Some 0] update_account = Some s'
      \<and> dslErrors s' = []"
    using Routing_duplicate_wildcards [of update_account 0 _ resource_BasePath
        "''/accounts/:accountID''" "[Some 0]" example_wildcards]
    by (auto simp: update_account_def current_def deref_def example_wildcards_def route_errors_def)
qed

subsection \<open>Headers on a response that has headers\<close>

text \<open>
  C8. When the innermost context is a response whose \<^verbatim>\<open>Headers\<close> is already set, a
  \<^verbatim>\<open>Headers\<close> call reports the error "headers already defined" and changes nothing
  else: the response keeps the attribute it had, and no attribute is allocated.
\<close>
theorem Headers_response_redeclared:
  assumes "current s = ResponseDef r"
    and "deref (responses s) r = Some rd"
    and "response_Headers rd \<noteq> None"
  shows "Headers d s = Some (s\<lparr>dslErrors := dslErrors s @ [(''headers already defined'', [])]\<rparr>)"
  using assms
  by (simp add: Headers_def actionDefinition_def resourceDefinition_def responseDefinition_def
      ReportError_def)

theorem Headers_response_redeclared_witness:
  "current no_content_response = ResponseDef (Some 0)
   \<and> map_option response_Headers (deref (responses no_content_response) (Some 0)) = Some (Some 0)
   \<and> Headers failing_dsl no_content_response =
       Some (no_content_response\<lparr>dslErrors := [(''headers already defined'', [])]\<rparr>)"
  using Headers_response_redeclared [of no_content_response "Some 0" _ failing_dsl]
  by (simp add: no_content_response_def update_account_def current_def deref_def)

subsection \<open>Params outside a resource or action\<close>

text \<open>
  C9. When the innermost context is neither an action nor a resource (or there is no
  context at all), \<^verbatim>\<open>Params\<close> reports one context error and changes nothing else: no
  attribute is created, no \<^verbatim>\<open>Params\<close> field is assigned, and the call returns normally.
\<close>
theorem Params_outside_context:
  assumes "\<forall>a. current s \<noteq> ActionDef a" and "\<forall>r. current s \<noteq> ResourceDef r"
  shows "Params d s =
           Some (s\<lparr>dslErrors := dslErrors s @
                     [(''must be used inside a block of kind %s'', [''Resource''])]\<rparr>)"
  using assms
  by (cases "current s")
     (simp_all add: Params_def actionDefinition_def resourceDefinition_def incompatibleDSL_def
        ReportError_def)

theorem Params_outside_context_witness:
  "current (account\<lparr>ctxStack := []\<rparr>) = NoDef
   \<and> Params failing_dsl (account\<lparr>ctxStack := []\<rparr>) =
       Some (account\<lparr>ctxStack := [],
                     dslErrors := [(''must be used inside a block of kind %s'', [''Resource''])]\<rparr>)"
  using Params_outside_context [of "account\<lparr>ctxStack := []\<rparr>" failing_dsl]
  by (simp add: account_def current_def)

subsection \<open>Action declared twice\<close>

lemma executeDSL_Some:
  "executeDSL d ctx s = Some (ok, s') \<longleftrightarrow>
     (\<exists>t. d (s\<lparr>ctxStack := ctxStack s @ [ctx]\<rparr>) = Some t
        \<and> ok = (length (dslErrors t) \<le> length (dslErrors s))
        \<and> s' = t\<lparr>ctxStack := butlast (ctxStack t)\<rparr>)"
  by (auto simp: executeDSL_def bind_eq_Some_conv)

lemma Action_commit:
  assumes "do {
             (ok', s4) \<leftarrow> executeDSL d (ActionDef action) s3;
             if \<not> ok' then Some s4
             else do {
               rd' \<leftarrow> deref (resources s4) (Some ri);
               m' \<leftarrow> resource_Actions rd';
               rs5 \<leftarrow> store (Some ri) (\<lambda>x. x\<lparr>resource_Actions := Some (m'(N \<mapsto> action))\<rparr>) (resources s4);
               Some (s4\<lparr>resources := rs5\<rparr>)
             }
           } = Some s'"
  shows "\<exists>t. d (s3\<lparr>ctxStack := ctxStack s3 @ [ActionDef action]\<rparr>) = Some t
     \<and> (if length (dslErrors t) \<le> length (dslErrors s3)
         then (\<exists>m'. ri < length (resources t) \<and> resource_Actions (resources t ! ri) = Some m'
                \<and> s' = t\<lparr>ctxStack := butlast (ctxStack t),
                         resources := (resources t)[ri := (resources t ! ri)\<lparr>resource_Actions := Some (m'(N \<mapsto> action))\<rparr>]\<rparr>)
         else s' = t\<lparr>ctxStack := butlast (ctxStack t)\<rparr>)"
proof -
  from assms obtain ok' s4 where e: "executeDSL d (ActionDef action) s3 = Some (ok', s4)"
    and c: "(if \<not> ok' then Some s4
             else do {
               rd' \<leftarrow> deref (resources s4) (Some ri);
               m' \<leftarrow> resource_Actions rd';
               rs5 \<leftarrow> store (Some ri) (\<lambda>x. x\<lparr>resource_Actions := Some (m'(N \<mapsto> action))\<rparr>) (resources s4);
               Some (s4\<lparr>resources := rs5\<rparr>)
             }) = Some s'"
    by (auto simp: bind_eq_Some_conv)
  from e obtain t where t: "d (s3\<lparr>ctxStack := ctxStack s3 @ [ActionDef action]\<rparr>) = Some t"
    and ok: "ok' = (length (dslErrors t) \<le> length (dslErrors s3))"
    and s4: "s4 = t\<lparr>ctxStack := butlast (ctxStack t)\<rparr>"
    by (auto simp: executeDSL_Some)
  show ?thesis
  proof (cases ok')
    case False
    with c ok s4 t show ?thesis by auto
  next
    case True
    with c have "ri < length (resources s4) \<and> (\<exists>m'. resource_Actions (resources s4 ! ri) = Some m'
        \<and> s' = s4\<lparr>resources := (resources s4)[ri := (resources s4 ! ri)\<lparr>resource_Actions := Some (m'(N \<mapsto> action))\<rparr>]\<rparr>)"
      by (auto simp: bind_eq_Some_conv deref_def store_def split: if_splits)
    with True ok s4 t show ?thesis by auto
  qed
qed

lemma Action_target_errors:
  "Action_target N ri s = (a, s3) \<Longrightarrow> dslErrors s3 = dslErrors s"
  by (auto simp: Action_target_def Let_def split: option.splits)

lemma Action_in_resource:
  assumes "current s = ResourceDef (Some ri)" and "ri < length (resources s)"
  shows "Action N d s =
           (case Action_target N ri s of
              (action, s3) \<Rightarrow> do {
                (ok', s4) \<leftarrow> executeDSL d (ActionDef action) s3;
                if \<not> ok' then Some s4
                else do {
                  rd' \<leftarrow> deref (resources s4) (Some ri);
                  m' \<leftarrow> resource_Actions rd';
                  rs5 \<leftarrow> store (Some ri) (\<lambda>x. x\<lparr>resource_Actions := Some (m'(N \<mapsto> action))\<rparr>) (resources s4);
                  Some (s4\<lparr>resources := rs5\<rparr>)
                }
              })"
proof (cases "resource_Actions (resources s ! ri)")
  case None
  then show ?thesis using assms
    by (simp add: Action_def Action_target_def resourceDefinition_def deref_def store_def Let_def)
next
  case (Some m)
  then show ?thesis using assms
    by (cases "m N")
       (simp_all add: Action_def Action_target_def resourceDefinition_def deref_def store_def Let_def)
qed

lemma Action_valid:
  assumes "current s = ResourceDef (Some ri)" and "Action N d s = Some s'"
  shows "ri < length (resources s)"
  using assms
  by (auto simp: Action_def resourceDefinition_def deref_def bind_eq_Some_conv split: if_splits)

lemma Action_runs:
  assumes ctx: "current s = ResourceDef (Some ri)" and run: "Action N d s = Some s'"
  shows "\<exists>a s3 t m. ri < length (resources s) \<and> Action_target N ri s = (a, s3)
     \<and> d (s3\<lparr>ctxStack := ctxStack s3 @ [ActionDef a]\<rparr>) = Some t
     \<and> (if length (dslErrors t) \<le> length (dslErrors s)
         then ri < length (resources t) \<and> resource_Actions (resources t ! ri) = Some m
              \<and> s' = t\<lparr>ctxStack := butlast (ctxStack t),
                       resources := (resources t)[ri := (resources t ! ri)\<lparr>resource_Actions := Some (m(N \<mapsto> a))\<rparr>]\<rparr>
         else s' = t\<lparr>ctxStack := butlast (ctxStack t)\<rparr>)"
proof -
  note ri = Action_valid[OF ctx run]
  obtain a s3 where tg: "Action_target N ri s = (a, s3)" by (cases "Action_target N ri s")
  note e = Action_target_errors[OF tg]
  from Action_in_resource[OF ctx ri, of N d] run tg
  have "do {
             (ok', s4) \<leftarrow> executeDSL d (ActionDef a) s3;
             if \<not> ok' then Some s4
             else do {
               rd' \<leftarrow> deref (resources s4) (Some ri);
               m' \<leftarrow> resource_Actions rd';
               rs5 \<leftarrow> store (Some ri) (\<lambda>x. x\<lparr>resource_Actions := Some (m'(N \<mapsto> a))\<rparr>) (resources s4);
               Some (s4\<lparr>resources := rs5\<rparr>)
             }
           } = Some s'" by simp
  from Action_commit[OF this] obtain t where
    t: "d (s3\<lparr>ctxStack := ctxStack s3 @ [ActionDef a]\<rparr>) = Some t"
    and c: "if length (dslErrors t) \<le> length (dslErrors s3)
         then (\<exists>m'. ri < length (resources t) \<and> resource_Actions (resources t ! ri) = Some m'
                \<and> s' = t\<lparr>ctxStack := butlast (ctxStack t),
                         resources := (resources t)[ri := (resources t ! ri)\<lparr>resource_Actions := Some (m'(N \<mapsto> a))\<rparr>]\<rparr>)
         else s' = t\<lparr>ctxStack := butlast (ctxStack t)\<rparr>"
    by blast
  show ?thesis
  proof (cases "length (dslErrors t) \<le> length (dslErrors s)")
    case True
    with c e obtain m where "ri < length (resources t)" "resource_Actions (resources t ! ri) = Some m"
      "s' = t\<lparr>ctxStack := butlast (ctxStack t),
                         resources := (resources t)[ri := (resources t ! ri)\<lparr>resource_Actions := Some (m(N \<mapsto> a))\<rparr>]\<rparr>"
      by auto
    with True ri tg t show ?thesis by auto
  next
    case False
    with c e have "s' = t\<lparr>ctxStack := butlast (ctxStack t)\<rparr>" by simp
    with False ri tg t show ?thesis by auto
  qed
qed

lemma Action_returns:
  assumes "current s = ResourceDef (Some ri)" and "ri < length (resources s)"
    and "Action_target N ri s = (a, s3)"
    and "d (s3\<lparr>ctxStack := ctxStack s3 @ [ActionDef a]\<rparr>) = Some t"
    and "ri < length (resources t)" and "resource_Actions (resources t ! ri) = Some m"
  shows "Action N d s =
           Some (if length (dslErrors t) \<le> length (dslErrors s)
                 then t\<lparr>ctxStack := butlast (ctxStack t),
                        resources := (resources t)[ri := (resources t ! ri)\<lparr>resource_Actions := Some (m(N \<mapsto> a))\<rparr>]\<rparr>
                 else t\<lparr>ctxStack := butlast (ctxStack t)\<rparr>)"
  using assms(3-6) Action_target_errors[OF assms(3)]
  by (simp add: Action_in_resource[OF assms(1,2)] executeDSL_def deref_def store_def)

text \<open>
  C4. Two \<^verbatim>\<open>Action\<close> calls with the same name \<open>N\<close> in the block of a resource, both
  callbacks succeeding (each call leaves the error list no longer than it found it, and
  the first leaves the resource as the innermost context). The theorem gives both calls
  in full. The first call runs \<open>cb1\<close> with the action \<open>a\<close> of \<open>Action_target\<close> as
  context (the action the map held under \<open>N\<close>, or else a new one with parent the
  resource and name \<open>N\<close>), and its result \<open>s1\<close> is what \<open>cb1\<close> produced, with the
  context popped and \<open>a\<close> stored under \<open>N\<close>. The second call finds that same \<open>a\<close>
  and allocates nothing (\<open>Action_target N ri s1 = (a, s1)\<close>), runs \<open>cb2\<close> on \<open>s1\<close> with
  \<open>a\<close> as context, and its result \<open>s2\<close> is what \<open>cb2\<close> produced, with the context
  popped and \<open>a\<close> stored under \<open>N\<close> again. So the one definition under \<open>N\<close> has been
  through both callbacks, the second working on what the first left.
\<close>
theorem Action_redeclared:
  assumes ctx0: "current s0 = ResourceDef (Some ri)"
    and run1: "Action N cb1 s0 = Some s1"
    and ok1: "length (dslErrors s1) \<le> length (dslErrors s0)"
    and ctx1: "current s1 = ResourceDef (Some ri)"
    and run2: "Action N cb2 s1 = Some s2"
    and ok2: "length (dslErrors s2) \<le> length (dslErrors s1)"
  shows "\<exists>a s3 t1 m1 t2 m2.
           ri < length (resources s0)
         \<and> Action_target N ri s0 = (a, s3)
         \<and> (case (case resource_Actions (resources s0 ! ri) of None \<Rightarrow> None | Some m \<Rightarrow> m N) of
               Some a0 \<Rightarrow> a = a0 \<and> s3 = s0
             | None \<Rightarrow>
                 a = Some (length (actions s0))
                 \<and> deref (actions s3) a =
                     Some \<lparr>action_Parent = Some ri, action_Name = N, action_Routes = [],
                           action_Headers = None, action_Params = None, action_Payload = None\<rparr>)
         \<and> cb1 (s3\<lparr>ctxStack := ctxStack s3 @ [ActionDef a]\<rparr>) = Some t1
         \<and> ri < length (resources t1) \<and> resource_Actions (resources t1 ! ri) = Some m1
         \<and> s1 = t1\<lparr>ctxStack := butlast (ctxStack t1),
                   resources := (resources t1)
                     [ri := (resources t1 ! ri)\<lparr>resource_Actions := Some (m1(N \<mapsto> a))\<rparr>]\<rparr>
         \<and> Action_target N ri s1 = (a, s1)
         \<and> cb2 (s1\<lparr>ctxStack := ctxStack s1 @ [ActionDef a]\<rparr>) = Some t2
         \<and> ri < length (resources t2) \<and> resource_Actions (resources t2 ! ri) = Some m2
         \<and> s2 = t2\<lparr>ctxStack := butlast (ctxStack t2),
                   resources := (resources t2)
                     [ri := (resources t2 ! ri)\<lparr>resource_Actions := Some (m2(N \<mapsto> a))\<rparr>]\<rparr>
         \<and> map_option resource_Actions (deref (resources s1) (Some ri)) = Some (Some (m1(N \<mapsto> a)))
         \<and> map_option resource_Actions (deref (resources s2) (Some ri)) = Some (Some (m2(N \<mapsto> a)))
         \<and> actions s1 = actions t1 \<and> actions s2 = actions t2"
proof -
  from Action_runs[OF ctx0 run1] obtain a s3 t1 m1 where
    ri0: "ri < length (resources s0)"
    and tg: "Action_target N ri s0 = (a, s3)"
    and t1: "cb1 (s3\<lparr>ctxStack := ctxStack s3 @ [ActionDef a]\<rparr>) = Some t1"
    and c1: "if length (dslErrors t1) \<le> length (dslErrors s0)
         then ri < length (resources t1) \<and> resource_Actions (resources t1 ! ri) = Some m1
              \<and> s1 = t1\<lparr>ctxStack := butlast (ctxStack t1),
                       resources := (resources t1)[ri := (resources t1 ! ri)\<lparr>resource_Actions := Some (m1(N \<mapsto> a))\<rparr>]\<rparr>
         else s1 = t1\<lparr>ctxStack := butlast (ctxStack t1)\<rparr>"
    by blast
  have le1: "length (dslErrors t1) \<le> length (dslErrors s0)"
    using c1 ok1 by (auto split: if_splits)
  with c1 have ri1: "ri < length (resources t1)"
    and m1: "resource_Actions (resources t1 ! ri) = Some m1"
    and s1: "s1 = t1\<lparr>ctxStack := butlast (ctxStack t1),
                     resources := (resources t1)[ri := (resources t1 ! ri)\<lparr>resource_Actions := Some (m1(N \<mapsto> a))\<rparr>]\<rparr>"
    by simp_all
  have fresh: "case (case resource_Actions (resources s0 ! ri) of None \<Rightarrow> None | Some m \<Rightarrow> m N) of
               Some a0 \<Rightarrow> a = a0 \<and> s3 = s0
             | None \<Rightarrow>
                 a = Some (length (actions s0))
                 \<and> deref (actions s3) a =
                     Some \<lparr>action_Parent = Some ri, action_Name = N, action_Routes = [],
                           action_Headers = None, action_Params = None, action_Payload = None\<rparr>"
    using tg by (auto simp: Action_target_def Let_def deref_def split: option.splits)
  have d1: "map_option resource_Actions (deref (resources s1) (Some ri)) = Some (Some (m1(N \<mapsto> a)))"
    using ri1 by (simp add: s1 deref_def)
  have tg1: "Action_target N ri s1 = (a, s1)"
    using ri1 by (simp add: Action_target_def s1)
  from Action_runs[OF ctx1 run2] tg1 obtain t2 m2 where
    t2: "cb2 (s1\<lparr>ctxStack := ctxStack s1 @ [ActionDef a]\<rparr>) = Some t2"
    and c2: "if length (dslErrors t2) \<le> length (dslErrors s1)
         then ri < length (resources t2) \<and> resource_Actions (resources t2 ! ri) = Some m2
              \<and> s2 = t2\<lparr>ctxStack := butlast (ctxStack t2),
                       resources := (resources t2)[ri := (resources t2 ! ri)\<lparr>resource_Actions := Some (m2(N \<mapsto> a))\<rparr>]\<rparr>
         else s2 = t2\<lparr>ctxStack := butlast (ctxStack t2)\<rparr>"
    by auto
  have le2: "length (dslErrors t2) \<le> length (dslErrors s1)"
    using c2 ok2 by (auto split: if_splits)
  with c2 have ri2: "ri < length (resources t2)"
    and m2: "resource_Actions (resources t2 ! ri) = Some m2"
    and s2: "s2 = t2\<lparr>ctxStack := butlast (ctxStack t2),
                     resources := (resources t2)[ri := (resources t2 ! ri)\<lparr>resource_Actions := Some (m2(N \<mapsto> a))\<rparr>]\<rparr>"
    by simp_all
  have d2: "map_option resource_Actions (deref (resources s2) (Some ri)) = Some (Some (m2(N \<mapsto> a)))"
    using ri2 by (simp add: s2 deref_def)
  have a1: "actions s1 = actions t1" by (simp add: s1)
  have a2: "actions s2 = actions t2" by (simp add: s2)
  from ri0 tg fresh t1 ri1 m1 s1 tg1 t2 ri2 m2 s2 d1 d2 a1 a2 show ?thesis by blast
qed

theorem Action_redeclared_witness:
  "\<exists>s1 s2 m.
       Action ''Update'' (Params Some) account_show = Some s1
     \<and> Action ''Update'' (Headers Some) s1 = Some s2
     \<and> actions s2 =
         [\<lparr>action_Parent = Some 0, action_Name = ''Show'', action_Routes = [],
           action_Headers = None, action_Params = None, action_Payload = None\<rparr>,
          \<lparr>action_Parent = Some 0, action_Name = ''Update'', action_Routes = [],
           action_Headers = Some 1, action_Params = Some 0, action_Payload = None\<rparr>]
     \<and> resource_Actions (resources s2 ! 0) = Some m
     \<and> m ''Update'' = Some (Some 1) \<and> m ''Show'' = Some (Some 0)"
proof -
  define s1 where "s1 = account_show
     \<lparr>resources := [\<lparr>resource_Name = ''Account'', resource_BasePath = ''/accounts/:accountID'',
                     resource_MediaType = [],
                     resource_Actions = Some [''Show'' \<mapsto> Some 0, ''Update'' \<mapsto> Some 1],
                     resource_Headers = None, resource_Params = None\<rparr>],
      actions := [\<lparr>action_Parent = Some 0, action_Name = ''Show'', action_Routes = [],
                   action_Headers = None, action_Params = None, action_Payload = None\<rparr>,
                  \<lparr>action_Parent = Some 0, action_Name = ''Update'', action_Routes = [],
                   action_Headers = None, action_Params = Some 0, action_Payload = None\<rparr>],
      attributes := [\<lparr>attr_Type = None, attr_Reference = None\<rparr>]\<rparr>"
  define s2 where "s2 = s1
     \<lparr>actions := [\<lparr>action_Parent = Some 0, action_Name = ''Show'', action_Routes = [],
                   action_Headers = None, action_Params = None, action_Payload = None\<rparr>,
                  \<lparr>action_Parent = Some 0, action_Name = ''Update'', action_Routes = [],
                   action_Headers = Some 1, action_Params = Some 0, action_Payload = None\<rparr>],
      attributes := [\<lparr>attr_Type = None, attr_Reference = None\<rparr>,
                     \<lparr>attr_Type = None, attr_Reference = None\<rparr>]\<rparr>"
  have r1: "Action ''Update'' (Params Some) account_show = Some s1"
    by (simp add: s1_def account_show_def account_def Action_def Params_def resourceDefinition_def
        actionDefinition_def current_def deref_def store_def executeDSL_def newAttribute_def)
  have r2: "Action ''Update'' (Headers Some) s1 = Some s2"
    by (simp add: s2_def s1_def account_show_def account_def Action_def Headers_def
        resourceDefinition_def actionDefinition_def current_def deref_def store_def executeDSL_def
        newAttribute_def)
  have c0: "current account_show = ResourceDef (Some 0)"
    by (simp add: account_show_def account_def current_def)
  have c1: "current s1 = ResourceDef (Some 0)"
    by (simp add: s1_def account_show_def account_def current_def)
  have e1: "length (dslErrors s1) \<le> length (dslErrors account_show)" by (simp add: s1_def)
  have e2: "length (dslErrors s2) \<le> length (dslErrors s1)" by (simp add: s2_def)
  from Action_redeclared[OF c0 r1 e1 c1 r2 e2] r1 r2
  show ?thesis by (auto simp: s2_def s1_def account_show_def account_def deref_def)
qed

subsection \<open>Payload: the state after the call\<close>

lemma Payload_tail:
  assumes "do {
               ad \<leftarrow> deref (actions s4) (Some ai);
               pd \<leftarrow> deref (resources s4) (action_Parent ad);
               let rn = C (resource_Name pd);
               let an = C (action_Name ad);
               let payload = Some (length (userTypes s4));
               let s5 = s4\<lparr>userTypes := userTypes s4 @
                            [\<lparr>ut_AttributeDefinition = att, ut_TypeName = an @ rn @ ''Payload''\<rparr>]\<rparr>;
               actions6 \<leftarrow> store (Some ai) (\<lambda>x. x\<lparr>action_Payload := payload\<rparr>) (actions s5);
               Some (s5\<lparr>actions := actions6\<rparr>)
             } = Some s'"
  shows "\<exists>ad pd.
           deref (actions s4) (Some ai) = Some ad
         \<and> deref (resources s4) (action_Parent ad) = Some pd
         \<and> s' = s4\<lparr>userTypes := userTypes s4 @
                      [\<lparr>ut_AttributeDefinition = att,
                        ut_TypeName = C (action_Name ad) @ C (resource_Name pd) @ ''Payload''\<rparr>],
                    actions := (actions s4)[ai := ad\<lparr>action_Payload := Some (length (userTypes s4))\<rparr>]\<rparr>"
  using assms
  by (auto simp: bind_eq_Some_conv deref_def store_def Let_def split: if_splits)

lemma Payload_shape:
  assumes "current s = ActionDef (Some ai)" and "length dsls \<le> 1"
    and "Payload C p dsls s = Some s'"
  shows "\<exists>att s4 ad pd.
           deref (actions s4) (Some ai) = Some ad
         \<and> deref (resources s4) (action_Parent ad) = Some pd
         \<and> s' = s4\<lparr>userTypes := userTypes s4 @
                      [\<lparr>ut_AttributeDefinition = att,
                        ut_TypeName = C (action_Name ad) @ C (resource_Name pd) @ ''Payload''\<rparr>],
                    actions := (actions s4)[ai := ad\<lparr>action_Payload := Some (length (userTypes s4))\<rparr>]\<rparr>"
proof -
  from assms have "\<exists>att s4. do {
               ad \<leftarrow> deref (actions s4) (Some ai);
               pd \<leftarrow> deref (resources s4) (action_Parent ad);
               let rn = C (resource_Name pd);
               let an = C (action_Name ad);
               let payload = Some (length (userTypes s4));
               let s5 = s4\<lparr>userTypes := userTypes s4 @
                            [\<lparr>ut_AttributeDefinition = att, ut_TypeName = an @ rn @ ''Payload''\<rparr>]\<rparr>;
               actions6 \<leftarrow> store (Some ai) (\<lambda>x. x\<lparr>action_Payload := payload\<rparr>) (actions s5);
               Some (s5\<lparr>actions := actions6\<rparr>)
             } = Some s'"
    unfolding Payload_def actionDefinition_def
    by (simp add: bind_eq_Some_conv split_beta del: One_nat_def) blast
  then show ?thesis using Payload_tail by blast
qed


text \<open>
  The call does return when the action and its parent resource are allocated and the
  callback returns and leaves them allocated: here for a callback given as the source.
  (For a source without callback see \<open>Payload_no_callback\<close> below.)
\<close>

lemma Payload_callback_returns:
  assumes "current s = ActionDef (Some ai)"
    and "deref (actions s) (Some ai) = Some ad"
    and "deref (resources s) (action_Parent ad) = Some pd"
    and "f (s\<lparr>attributes := attributes s @
                 [\<lparr>attr_Type = Some (Object []),
                   attr_Reference = (case MediaTypes s (resource_MediaType pd) of Some t \<Rightarrow> t | None \<Rightarrow> None)\<rparr>],
               ctxStack := ctxStack s @ [AttributeDef (Some (length (attributes s)))]\<rparr>) = Some t"
    and "deref (actions t) (Some ai) = Some ad'"
    and "deref (resources t) (action_Parent ad') = Some pd'"
  shows "\<exists>s'. Payload C (PFunc (Some f)) [] s = Some s'"
  using assms
  by (auto simp: Payload_def actionDefinition_def deref_def store_def newAttribute_def executeDSL_def
      split: if_splits option.splits)

subsection \<open>Payload: the synthesized name\<close>

lemma Payload_no_callback:
  assumes "current s = ActionDef (Some ai)"
    and "deref (actions s) (Some ai) = Some ad"
    and "deref (resources s) (action_Parent ad) = Some pd"
    and "(p, att) \<in> {(POther, None), (PAttribute x, x), (PDataStructure x, x)}"
  shows "Payload C p [] s =
           Some (s\<lparr>userTypes := userTypes s @
                      [\<lparr>ut_AttributeDefinition = att,
                        ut_TypeName = C (action_Name ad) @ C (resource_Name pd) @ ''Payload''\<rparr>],
                    actions := (actions s)[ai := ad\<lparr>action_Payload := Some (length (userTypes s))\<rparr>]\<rparr>)"
  using assms
  by (auto simp: Payload_def actionDefinition_def deref_def store_def Let_def split: if_splits)

lemma Payload_unknown_type:
  assumes "current s = ActionDef a" and "Types s name = None" and "length dsls \<le> 1"
  shows "Payload C (PString name) dsls s = None"
  using assms
  by (simp add: Payload_def actionDefinition_def deref_def del: One_nat_def)

text \<open>
  C10. In an action context, a \<^verbatim>\<open>Payload\<close> call whose source is none of the four
  shapes of the type switch (an integer, say) and that has no override callback reports
  no error and assigns to the action a payload with the synthesized name and a nil
  attribute definition. The equation gives the whole resulting state: one user type
  allocated, the action's \<^verbatim>\<open>Payload\<close> pointing at it, the error list untouched.
\<close>
theorem Payload_unsupported_source:
  assumes "current s = ActionDef (Some ai)"
    and "deref (actions s) (Some ai) = Some ad"
    and "deref (resources s) (action_Parent ad) = Some pd"
  shows "Payload C POther [] s =
           Some (s\<lparr>userTypes := userTypes s @
                      [\<lparr>ut_AttributeDefinition = None,
                        ut_TypeName = C (action_Name ad) @ C (resource_Name pd) @ ''Payload''\<rparr>],
                    actions := (actions s)[ai := ad\<lparr>action_Payload := Some (length (userTypes s))\<rparr>]\<rparr>)"
  using Payload_no_callback[OF assms, of POther None] by simp

theorem Payload_unsupported_source_witness:
  "map_option (\<lambda>s. (dslErrors s, action_Payload (actions s ! 0), userTypes s ! 1))
     (Payload (\<lambda>w. w) POther [] update_account) =
   Some ([], Some 1, \<lparr>ut_AttributeDefinition = None, ut_TypeName = ''UpdateAccountPayload''\<rparr>)"
  using Payload_unsupported_source [of update_account 0 _ _ "\<lambda>w. w"]
  by (simp add: update_account_def current_def deref_def)

text \<open>
  C5. Whenever \<^verbatim>\<open>Payload\<close> returns in an action context with at most one override
  callback, the action has a payload whose type name is
  \<open>Camelize (action name) @ Camelize (resource name) @ ''Payload''\<close>, whatever the source.
  The names are those the action and its parent resource carry when the call returns;
  \<^verbatim>\<open>Payload\<close> itself changes neither. For the action Update of the resource Account the name
  is UpdateAccountPayload, provided \<open>Camelize\<close> leaves these two words as they are; and two
  calls (any two states, sources and callbacks) on equal pairs of names give equal type
  names.
\<close>
theorem Payload_type_name:
  assumes "current s = ActionDef (Some ai)" and "length dsls \<le> 1"
    and "Payload C p dsls s = Some s'"
    and "current t = ActionDef (Some bi)" and "length dsls' \<le> 1"
    and "Payload C q dsls' t = Some t'"
  shows "\<exists>ad pd u ut bd qd v vt.
           deref (actions s') (Some ai) = Some ad
         \<and> deref (resources s') (action_Parent ad) = Some pd
         \<and> action_Payload ad = u \<and> deref (userTypes s') u = Some ut
         \<and> ut_TypeName ut = C (action_Name ad) @ C (resource_Name pd) @ ''Payload''
         \<and> (action_Name ad = ''Update'' \<and> resource_Name pd = ''Account''
              \<and> C ''Update'' = ''Update'' \<and> C ''Account'' = ''Account''
              \<longrightarrow> ut_TypeName ut = ''UpdateAccountPayload'')
         \<and> deref (actions t') (Some bi) = Some bd
         \<and> deref (resources t') (action_Parent bd) = Some qd
         \<and> action_Payload bd = v \<and> deref (userTypes t') v = Some vt
         \<and> (action_Name bd = action_Name ad \<and> resource_Name qd = resource_Name pd
              \<longrightarrow> ut_TypeName vt = ut_TypeName ut)"
proof -
  have one: "\<exists>ad pd ut.
           deref (actions s') (Some ai) = Some ad
         \<and> deref (resources s') (action_Parent ad) = Some pd
         \<and> deref (userTypes s') (action_Payload ad) = Some ut
         \<and> ut_TypeName ut = C (action_Name ad) @ C (resource_Name pd) @ ''Payload''"
    if "current s = ActionDef (Some ai)" "length dsls \<le> 1" "Payload C p dsls s = Some s'"
    for s ai dsls p s'
  proof -
    from Payload_shape[OF that] obtain att s4 ad pd where
      a: "deref (actions s4) (Some ai) = Some ad"
      and r: "deref (resources s4) (action_Parent ad) = Some pd"
      and s': "s' = s4\<lparr>userTypes := userTypes s4 @
                      [\<lparr>ut_AttributeDefinition = att,
                        ut_TypeName = C (action_Name ad) @ C (resource_Name pd) @ ''Payload''\<rparr>],
                    actions := (actions s4)[ai := ad\<lparr>action_Payload := Some (length (userTypes s4))\<rparr>]\<rparr>"
      by blast
    from a have ai: "ai < length (actions s4)" by (simp add: deref_def split: if_splits)
    let ?ad = "ad\<lparr>action_Payload := Some (length (userTypes s4))\<rparr>"
    have "deref (actions s') (Some ai) = Some ?ad" using ai by (simp add: s' deref_def)
    moreover have "deref (resources s') (action_Parent ?ad) = Some pd" using r by (simp add: s')
    moreover have "deref (userTypes s') (action_Payload ?ad) =
        Some \<lparr>ut_AttributeDefinition = att,
              ut_TypeName = C (action_Name ad) @ C (resource_Name pd) @ ''Payload''\<rparr>"
      by (simp add: s' deref_def)
    ultimately show ?thesis by force
  qed
  from one[OF assms(1,2,3)] obtain ad pd ut where
    1: "deref (actions s') (Some ai) = Some ad" "deref (resources s') (action_Parent ad) = Some pd"
       "deref (userTypes s') (action_Payload ad) = Some ut"
       "ut_TypeName ut = C (action_Name ad) @ C (resource_Name pd) @ ''Payload''" by blast
  from one[OF assms(4,5,6)] obtain bd qd vt where
    2: "deref (actions t') (Some bi) = Some bd" "deref (resources t') (action_Parent bd) = Some qd"
       "deref (userTypes t') (action_Payload bd) = Some vt"
       "ut_TypeName vt = C (action_Name bd) @ C (resource_Name qd) @ ''Payload''" by blast
  from 1 2 show ?thesis by auto
qed

theorem Payload_type_name_witness:
  "\<exists>s' t' ut vt.
      Payload (\<lambda>w. w) (PAttribute (Some 0)) [] update_account = Some s'
    \<and> Payload (\<lambda>w. w) POther [] update_account = Some t'
    \<and> deref (userTypes s') (action_Payload (actions s' ! 0)) = Some ut
    \<and> ut_TypeName ut = ''UpdateAccountPayload''
    \<and> deref (userTypes t') (action_Payload (actions t' ! 0)) = Some vt
    \<and> ut_TypeName vt = ''UpdateAccountPayload''"
proof -
  have c: "current update_account = ActionDef (Some 0)"
    by (simp add: update_account_def current_def)
  have a: "deref (actions update_account) (Some 0) = Some (actions update_account ! 0)"
    by (simp add: update_account_def deref_def)
  have r: "deref (resources update_account) (action_Parent (actions update_account ! 0))
             = Some (resources update_account ! 0)"
    by (simp add: update_account_def deref_def)
  note r1 = Payload_no_callback[OF c a r, of "PAttribute (Some 0)" "Some 0" "Some 0" "\<lambda>w. w", simplified]
  note r2 = Payload_no_callback[OF c a r, of POther None None "\<lambda>w. w", simplified]
  have l: "length ([]::dsl option list) \<le> 1" by simp
  from Payload_type_name[OF c l r1 c l r2]
  show ?thesis unfolding r1 r2
    by (simp add: update_account_def deref_def)
qed

subsection \<open>Payload: where the code keeps going after an error\<close>

text \<open>
  C1. \<^verbatim>\<open>Payload\<close> called in the action Update of the resource Account with a callback as
  source and one override callback: the call reports the "invalid arguments" error and
  then goes on. The override callback replaces the source callback, is executed, and the
  action is assigned the payload UpdateAccountPayload, built on the attribute that was
  created for the source callback. The call is not aborted.
\<close>
theorem Payload_two_callbacks_assigns:
  "map_option (\<lambda>s. (dslErrors s, action_Payload (actions s ! 0), userTypes s ! 1))
     (Payload (\<lambda>w. w) (PFunc (Some Some)) [Some Some] update_account) =
   Some ([(''invalid arguments in Payload call, must be (type), (dsl) or (type, dsl)'', [])],
         Some 1,
         \<lparr>ut_AttributeDefinition = Some 1, ut_TypeName = ''UpdateAccountPayload''\<rparr>)"
  by (simp add: Payload_def actionDefinition_def current_def update_account_def deref_def store_def
      newAttribute_def executeDSL_def ReportError_def)

text \<open>
  C2. \<^verbatim>\<open>Payload\<close> called in the same action with the name of a type that the registry
  does not hold: after \<^verbatim>\<open>ReportError\<close> the code reads \<^verbatim>\<open>ut.AttributeDefinition\<close> through
  the nil pointer that the failed lookup returned, so the call panics.
\<close>
theorem Payload_unregistered_name_panics:
  "Types update_account ''Nonexistent'' = None
   \<and> Payload (\<lambda>w. w) (PString ''Nonexistent'') [] update_account = None"
  by (simp add: Payload_def actionDefinition_def current_def update_account_def deref_def
      ReportError_def)

text \<open>
  C3. \<^verbatim>\<open>Payload\<close> called in the same action with a callback whose execution fails
  (\<^verbatim>\<open>executeDSL\<close> returns false on it), once as the source and once as the override of a
  registered type: in both calls the action is assigned the payload all the same. The
  result of \<^verbatim>\<open>executeDSL\<close> is not looked at.
\<close>
theorem Payload_failed_callback_assigns:
  "map_option fst (executeDSL failing_dsl (AttributeDef (Some 1)) update_account) = Some False
   \<and> map_option (\<lambda>s. (dslErrors s, action_Payload (actions s ! 0), userTypes s ! 1))
       (Payload (\<lambda>w. w) (PFunc (Some failing_dsl)) [] update_account) =
     Some ([(''invalid member'', [])], Some 1,
           \<lparr>ut_AttributeDefinition = Some 1, ut_TypeName = ''UpdateAccountPayload''\<rparr>)
   \<and> map_option (\<lambda>s. (dslErrors s, action_Payload (actions s ! 0), userTypes s ! 1))
       (Payload (\<lambda>w. w) (PString ''UpdatePayload'') [Some failing_dsl] update_account) =
     Some ([(''invalid member'', [])], Some 1,
           \<lparr>ut_AttributeDefinition = Some 0, ut_TypeName = ''UpdateAccountPayload''\<rparr>)"
  by (simp add: Payload_def actionDefinition_def current_def update_account_def deref_def store_def
      newAttribute_def executeDSL_def ReportError_def failing_dsl_def)

end
